theory Spec2Isabelle
  imports Main "HOL-Library.Sublist" "HOL-Library.Multiset"
begin

section \<open>Data model\<close>

text \<open>
  The inventory engine lives in one React component, \<^verbatim>\<open>src/App.tsx\<close>. Its state is the
  array \<^verbatim>\<open>items\<close>; every handler passes a function \<^verbatim>\<open>prev => next\<close> to
  \<^verbatim>\<open>setItems\<close>. Each handler is embedded as that function, from the previous array to
  the next one.

  A JavaScript string is a sequence of UTF-16 code units; the names, units and labels of
  the source are Chinese, so a string is a list of code units here. \<open>js\<close> embeds an ASCII
  literal.
\<close>

type_synonym jsstring = "nat list"

definition js :: "string \<Rightarrow> jsstring" where
  "js s = map of_char s"

text \<open>
  Modelled from the spec: the enumeration \<^verbatim>\<open>Category\<close> is declared in \<^verbatim>\<open>./types\<close>, which
  is not among the sources. The members are the five the spec lists; \<^verbatim>\<open>App.tsx\<close> names
  all five (\<^verbatim>\<open>getCategoryTheme\<close> and the demo data).
\<close>

datatype Category = MEAT | VEGETABLE | FRUIT | SEAFOOD | OTHER

text \<open>
  The state \<^verbatim>\<open>filterCategory\<close> has type \<^verbatim>\<open>Category | 'ALL'\<close>. The value \<^verbatim>\<open>'ALL'\<close> is
  \<open>ALL_categories\<close> (\<open>ALL\<close> is HOL's ASCII quantifier).
\<close>

datatype CategoryFilter = ALL_categories | Only Category

text \<open>
  Modelled from the spec: the interface \<^verbatim>\<open>InventoryItem\<close> is declared in \<^verbatim>\<open>./types\<close> too.
  Its fields are the seven that \<^verbatim>\<open>App.tsx\<close> reads and writes. \<^verbatim>\<open>handleAddItem\<close> takes an
  \<^verbatim>\<open>Omit<InventoryItem, 'id' | 'addedDate'>\<close>: the item without its two system-assigned
  fields. That is the record \<open>ItemDraft\<close>, which \<open>InventoryItem\<close> extends.

  \<^item> \<open>quantity\<close> is a JavaScript \<^verbatim>\<open>number\<close> that holds an integer (the spec's type); it
    is an \<open>int\<close>. A sum of two of them is JavaScript's, \<open>js_add\<close> below, not the exact one.
  \<^item> \<open>addedDate\<close> is an instant in milliseconds since the epoch. The source stores its
    rendering \<^verbatim>\<open>new Date(ms).toISOString()\<close> and reads it back with
    \<^verbatim>\<open>new Date(s).getTime()\<close>, which returns the same \<^verbatim>\<open>ms\<close>.
  \<^item> the field \<^verbatim>\<open>id\<close> is \<open>item_id\<close>: \<open>id\<close> is HOL's identity function.
\<close>

record ItemDraft =
  name :: jsstring
  quantity :: int
  unit :: jsstring
  category :: Category
  isDeleted :: bool

record InventoryItem = ItemDraft +
  item_id :: jsstring
  addedDate :: int

section \<open>Inventory store\<close>

text \<open>
  \<^verbatim>\<open>
  const handleAddItem = (newItem: Omit<InventoryItem, 'id' | 'addedDate'>) => {
    const item: InventoryItem = {
      ...newItem,
      id: crypto.randomUUID(),
      addedDate: new Date().toISOString(),
      isDeleted: false
    };
    setItems(prev => [item, ...prev]);
  };
  \<close>
  The two readings of the environment are arguments: \<open>uuid\<close> is the value
  \<^verbatim>\<open>crypto.randomUUID()\<close> returned and \<open>now\<close> the instant \<^verbatim>\<open>new Date()\<close> read.
  \<open>newInventoryItem\<close> is the object literal, \<open>handleAddItem\<close> the state update.
\<close>

definition newInventoryItem :: "jsstring \<Rightarrow> int \<Rightarrow> ItemDraft \<Rightarrow> InventoryItem" where
  "newInventoryItem uuid now newItem =
     \<lparr>name = name newItem, quantity = quantity newItem, unit = unit newItem,
      category = category newItem, isDeleted = False,
      item_id = uuid, addedDate = now\<rparr>"

definition handleAddItem ::
  "jsstring \<Rightarrow> int \<Rightarrow> ItemDraft \<Rightarrow> InventoryItem list \<Rightarrow> InventoryItem list" where
  "handleAddItem uuid now newItem prev = newInventoryItem uuid now newItem # prev"

text \<open>
  \<^verbatim>\<open>
  const moveToTrash = (id: string) => {
    setItems(prev => prev.map(item => item.id === id ? { ...item, isDeleted: true } : item));
  };
  const restoreFromTrash = (id: string) => {
    setItems(prev => prev.map(item => item.id === id ? { ...item, isDeleted: false } : item));
  };
  const deleteForever = (id: string) => {
    setItems(prev => prev.filter(item => item.id !== id));
  };
  \<close>
\<close>

definition moveToTrash :: "jsstring \<Rightarrow> InventoryItem list \<Rightarrow> InventoryItem list" where
  "moveToTrash ident prev =
     map (\<lambda>item. if item_id item = ident then item\<lparr>isDeleted := True\<rparr> else item) prev"

definition restoreFromTrash :: "jsstring \<Rightarrow> InventoryItem list \<Rightarrow> InventoryItem list" where
  "restoreFromTrash ident prev =
     map (\<lambda>item. if item_id item = ident then item\<lparr>isDeleted := False\<rparr> else item) prev"

definition deleteForever :: "jsstring \<Rightarrow> InventoryItem list \<Rightarrow> InventoryItem list" where
  "deleteForever ident prev = filter (\<lambda>item. item_id item \<noteq> ident) prev"

text \<open>
  JavaScript's \<^verbatim>\<open>+\<close> on two numbers is the addition of IEEE-754 doubles: the exact sum,
  rounded to the nearest double, a tie going to the even significand. A double has 53
  significant bits. So every integer up to \<open>2 ^ 53\<close> in magnitude is a double, and a
  larger one is rounded to a multiple of the power of two that leaves 53 bits:
  \<^verbatim>\<open>9007199254740992 + 1\<close> is \<^verbatim>\<open>9007199254740992\<close>.

  \<open>bit_length m\<close> is the number of bits of \<open>m\<close>; \<open>toDouble_nat\<close> rounds a natural
  number as described, \<open>toDouble\<close> an integer of either sign, and \<open>js_add a b\<close> is the
  sum that \<^verbatim>\<open>a + b\<close> evaluates to for two doubles \<open>a\<close> and \<open>b\<close> that hold integers.
  The numbers of this model are integers: a sum that reaches \<open>2 ^ 1024\<close> is
  \<^verbatim>\<open>Infinity\<close> in JavaScript and lies outside them, as fractions and \<^verbatim>\<open>NaN\<close> do.
\<close>

fun bit_length :: "nat \<Rightarrow> nat" where
  "bit_length n = (if n = 0 then 0 else Suc (bit_length (n div 2)))"

declare bit_length.simps [simp del]

definition toDouble_nat :: "nat \<Rightarrow> nat" where
  "toDouble_nat m =
     (let e = bit_length m - 53; u = 2 ^ e; q = m div u; r = m mod u
      in if 2 * r < u then q * u
         else if u < 2 * r then (q + 1) * u
         else if even q then q * u else (q + 1) * u)"

definition toDouble :: "int \<Rightarrow> int" where
  "toDouble n = (if n < 0 then - int (toDouble_nat (nat (- n))) else int (toDouble_nat (nat n)))"

definition js_add :: "int \<Rightarrow> int \<Rightarrow> int" where
  "js_add a b = toDouble (a + b)"

text \<open>
  \<^verbatim>\<open>
  const handleUpdateQuantity = (id: string, delta: number) => {
    setItems(prev => prev.map(item => {
        if (item.id === id) {
            const newQty = item.quantity + delta;
            return newQty > 0 ? { ...item, quantity: newQty } : item;
        }
        return item;
    }));
  };
  \<close>
  \<open>updateQuantity\<close> is the function mapped over the array.
\<close>

definition updateQuantity :: "jsstring \<Rightarrow> int \<Rightarrow> InventoryItem \<Rightarrow> InventoryItem" where
  "updateQuantity ident delta item =
     (if item_id item = ident then
        (let newQty = js_add (quantity item) delta
         in if newQty > 0 then item\<lparr>quantity := newQty\<rparr> else item)
      else item)"

definition handleUpdateQuantity ::
  "jsstring \<Rightarrow> int \<Rightarrow> InventoryItem list \<Rightarrow> InventoryItem list" where
  "handleUpdateQuantity ident delta prev = map (updateQuantity ident delta) prev"

section \<open>Freshness classifier\<close>

text \<open>
  \<^verbatim>\<open>
  // Color logic: Fresh (0-3 days) -> Medium (4-7 days) -> Old (7+ days)
  const getFreshnessColor = (days: number) => {
    if (days <= 3) return { bg: 'bg-emerald-50', text: 'text-emerald-600', border: 'border-emerald-100', label: <xin xian> };
    if (days <= 7) return { bg: 'bg-amber-50', text: 'text-amber-600', border: 'border-amber-100', label: <liang> };
    return { bg: 'bg-rose-50', text: 'text-rose-600', border: 'border-rose-100', label: <jiu zhi> };
  };
  \<close>
  The three objects returned are the three tiers; the labels are given by their code
  units (U+65B0 U+9C9C, U+826F, and U+4E45 U+7F6E). The field \<^verbatim>\<open>text\<close> is \<open>text_colour\<close>
  here. \<open>days\<close> is the integer \<^verbatim>\<open>getDaysStored\<close> returns.
\<close>

record Freshness =
  bg :: jsstring
  text_colour :: jsstring
  border :: jsstring
  label :: jsstring

definition FRESH :: Freshness where
  "FRESH = \<lparr>bg = js ''bg-emerald-50'', text_colour = js ''text-emerald-600'',
            border = js ''border-emerald-100'', label = [26032, 40092]\<rparr>"

definition MEDIUM :: Freshness where
  "MEDIUM = \<lparr>bg = js ''bg-amber-50'', text_colour = js ''text-amber-600'',
             border = js ''border-amber-100'', label = [33391]\<rparr>"

definition OLD :: Freshness where
  "OLD = \<lparr>bg = js ''bg-rose-50'', text_colour = js ''text-rose-600'',
          border = js ''border-rose-100'', label = [20037, 32622]\<rparr>"

definition getFreshnessColor :: "int \<Rightarrow> Freshness" where
  "getFreshnessColor days =
     (if days \<le> 3 then FRESH else if days \<le> 7 then MEDIUM else OLD)"

section \<open>View projector\<close>

text \<open>
  \<^verbatim>\<open>
  const filteredItems = useMemo(() => {
    return items.filter(item => {
      // Trash Logic
      if (showTrash) return item.isDeleted;
      if (item.isDeleted) return false;

      // Filter Logic
      const matchesCategory = filterCategory === 'ALL' || item.category === filterCategory;
      const matchesSearch = item.name.toLowerCase().includes(searchTerm.toLowerCase());
      return matchesCategory && matchesSearch;
    }).sort((a, b) => new Date(b.addedDate).getTime() - new Date(a.addedDate).getTime()); // Newest first
  }, [items, filterCategory, searchTerm, showTrash]);
  \<close>
  Three functions of the JavaScript library are used.

  \<^item> \<^verbatim>\<open>s.includes(t)\<close>: whether \<open>t\<close> occurs in \<open>s\<close> as a contiguous run of code units;
    \<open>includes_str s t\<close> tries every position of \<open>s\<close> (\<open>includes\<close> is a keyword).
  \<^item> \<^verbatim>\<open>s.toLowerCase()\<close>: Unicode's lower-casing of a whole string. It is an argument,
    \<open>toLowerCase\<close>, of the projection.
  \<^item> \<^verbatim>\<open>xs.sort(cmp)\<close>: ECMAScript specifies a stable sort; \<open>x\<close> goes before \<open>y\<close> when
    \<^verbatim>\<open>cmp(x, y) <= 0\<close> and \<open>x\<close> stood before \<open>y\<close>. \<open>sort_cmp\<close> is the stable insertion
    sort with a comparator. The comparator here is the difference of two instants, so it
    is an \<open>int\<close> and orders the items consistently.
\<close>

fun includes_str :: "'a list \<Rightarrow> 'a list \<Rightarrow> bool" where
  "includes_str [] t = (t = [])"
| "includes_str (c # s) t = (prefix t (c # s) \<or> includes_str s t)"

fun insert_cmp :: "('a \<Rightarrow> 'a \<Rightarrow> int) \<Rightarrow> 'a \<Rightarrow> 'a list \<Rightarrow> 'a list" where
  "insert_cmp cmp x [] = [x]"
| "insert_cmp cmp x (y # ys) =
     (if cmp x y \<le> 0 then x # y # ys else y # insert_cmp cmp x ys)"

definition sort_cmp :: "('a \<Rightarrow> 'a \<Rightarrow> int) \<Rightarrow> 'a list \<Rightarrow> 'a list" where
  "sort_cmp cmp xs = foldr (insert_cmp cmp) xs []"

definition newestFirst :: "InventoryItem \<Rightarrow> InventoryItem \<Rightarrow> int" where
  "newestFirst a b = addedDate b - addedDate a"

definition keepItem ::
  "(jsstring \<Rightarrow> jsstring) \<Rightarrow> CategoryFilter \<Rightarrow> jsstring \<Rightarrow> bool \<Rightarrow> InventoryItem \<Rightarrow> bool" where
  "keepItem toLowerCase filterCategory searchTerm showTrash item =
     (if showTrash then isDeleted item
      else if isDeleted item then False
      else
        (let matchesCategory = (filterCategory = ALL_categories \<or> Only (category item) = filterCategory);
             matchesSearch = includes_str (toLowerCase (name item)) (toLowerCase searchTerm)
         in matchesCategory \<and> matchesSearch))"

definition filteredItems ::
  "(jsstring \<Rightarrow> jsstring) \<Rightarrow> InventoryItem list \<Rightarrow> CategoryFilter \<Rightarrow> jsstring \<Rightarrow> bool
     \<Rightarrow> InventoryItem list" where
  "filteredItems toLowerCase items filterCategory searchTerm showTrash =
     sort_cmp newestFirst
       (filter (keepItem toLowerCase filterCategory searchTerm showTrash) items)"

section \<open>Loading the persisted collection\<close>

text \<open>
  \<^verbatim>\<open>
  const [items, setItems] = useState<InventoryItem[]>([]);
  ...
  useEffect(() => {
    const saved = localStorage.getItem(STORAGE_KEY);
    if (saved) {
      try {
        setItems(JSON.parse(saved));
      } catch (e) {
        console.error("Failed to parse inventory", e);
      }
    } else {
        // Demo Data
        setItems([
            { id: '1', name: ..., quantity: 1, unit: 'L', category: Category.OTHER, addedDate: new Date(Date.now() - 86400000 * 1).toISOString(), isDeleted: false },
            { id: '2', name: ..., quantity: 20, unit: ..., category: Category.SEAFOOD, addedDate: new Date(Date.now() - 86400000 * 0).toISOString(), isDeleted: false },
            { id: '3', name: ..., quantity: 3, unit: ..., category: Category.VEGETABLE, addedDate: new Date(Date.now() - 86400000 * 4).toISOString(), isDeleted: false },
            { id: '4', name: ..., quantity: 2, unit: ..., category: Category.MEAT, addedDate: new Date(Date.now() - 86400000 * 8).toISOString(), isDeleted: false },
        ]);
    }
  }, []);
  \<close>
  \<^verbatim>\<open>localStorage.getItem\<close> returns a string or \<^verbatim>\<open>null\<close>: \<open>saved\<close> is a \<open>jsstring option\<close>,
  and \<^verbatim>\<open>if (saved)\<close> fails for \<^verbatim>\<open>null\<close> and for the empty string. \<^verbatim>\<open>JSON.parse\<close> is an
  argument: \<open>None\<close> is its \<^verbatim>\<open>SyntaxError\<close>, \<open>Some v\<close> the array it returns. The catch
  block only logs, so the state stays what it was. \<^verbatim>\<open>Date.now()\<close> is read four times,
  once per demo item: \<open>t1\<close> to \<open>t4\<close> are the four readings.
\<close>

definition demoData :: "int \<Rightarrow> int \<Rightarrow> int \<Rightarrow> int \<Rightarrow> InventoryItem list" where
  "demoData t1 t2 t3 t4 =
     [\<lparr>name = [20840, 33026, 29275, 22902], quantity = 1, unit = js ''L'',
       category = OTHER, isDeleted = False,
       item_id = js ''1'', addedDate = t1 - 86400000 * 1\<rparr>,
      \<lparr>name = [22522, 22260, 34430], quantity = 20, unit = [21482],
       category = SEAFOOD, isDeleted = False,
       item_id = js ''2'', addedDate = t2 - 86400000 * 0\<rparr>,
      \<lparr>name = [19978, 28023, 38738], quantity = 3, unit = [25226],
       category = VEGETABLE, isDeleted = False,
       item_id = js ''3'', addedDate = t3 - 86400000 * 4\<rparr>,
      \<lparr>name = [29275, 25490], quantity = 2, unit = [22359],
       category = MEAT, isDeleted = False,
       item_id = js ''4'', addedDate = t4 - 86400000 * 8\<rparr>]"

definition loadEffect ::
  "(jsstring \<Rightarrow> InventoryItem list option) \<Rightarrow> int \<Rightarrow> int \<Rightarrow> int \<Rightarrow> int
     \<Rightarrow> jsstring option \<Rightarrow> InventoryItem list \<Rightarrow> InventoryItem list" where
  "loadEffect JSON_parse t1 t2 t3 t4 saved items =
     (case saved of
        None \<Rightarrow> demoData t1 t2 t3 t4
      | Some s \<Rightarrow>
          if s = [] then demoData t1 t2 t3 t4
          else (case JSON_parse s of Some v \<Rightarrow> v | None \<Rightarrow> items))"

text \<open>The component mounts with the state \<^verbatim>\<open>useState<InventoryItem[]>([])\<close>.\<close>

definition initialize ::
  "(jsstring \<Rightarrow> InventoryItem list option) \<Rightarrow> int \<Rightarrow> int \<Rightarrow> int \<Rightarrow> int
     \<Rightarrow> jsstring option \<Rightarrow> InventoryItem list" where
  "initialize JSON_parse t1 t2 t3 t4 saved = loadEffect JSON_parse t1 t2 t3 t4 saved []"

section \<open>The normal-mode filter in the spec's words\<close>


section \<open>Properties of JavaScript's addition on integers\<close>

lemma bit_length_le: "n < 2 ^ k \<Longrightarrow> bit_length n \<le> k"
proof (induction k arbitrary: n)
  case 0
  then show ?case by (simp add: bit_length.simps)
next
  case (Suc k)
  then have "n div 2 < 2 ^ k" by simp
  then have "bit_length (n div 2) \<le> k" by (rule Suc.IH)
  then show ?case by (subst bit_length.simps) simp
qed

lemma bit_length_eq: "2 ^ k \<le> n \<Longrightarrow> n < 2 ^ Suc k \<Longrightarrow> bit_length n = Suc k"
proof (induction k arbitrary: n)
  case 0
  then have "n = 1" by simp
  then show ?case by (simp add: bit_length.simps)
next
  case (Suc k)
  then have "2 ^ k \<le> n div 2" "n div 2 < 2 ^ Suc k" by simp_all
  then have "bit_length (n div 2) = Suc k" by (rule Suc.IH)
  moreover from Suc.prems have "n \<noteq> 0" by auto
  ultimately show ?case by (subst bit_length.simps) simp
qed

lemma bit_length_lower: "0 < n \<Longrightarrow> 2 ^ (bit_length n - 1) \<le> n"
proof (induction n rule: bit_length.induct)
  case (1 n)
  show ?case
  proof (cases "n div 2 = 0")
    case True
    with "1.prems" have "bit_length n = 1"
      by (subst bit_length.simps) (simp add: bit_length.simps)
    with "1.prems" show ?thesis by simp
  next
    case False
    with "1.IH" "1.prems" have ih: "2 ^ (bit_length (n div 2) - 1) \<le> n div 2" by simp
    from False have pos: "0 < bit_length (n div 2)"
      by (subst bit_length.simps) simp
    from "1.prems" have "bit_length n = Suc (bit_length (n div 2))"
      by (subst bit_length.simps) simp
    then have "(2::nat) ^ (bit_length n - 1) = 2 * 2 ^ (bit_length (n div 2) - 1)"
      using pos by (cases "bit_length (n div 2)") simp_all
    also have "\<dots> \<le> 2 * (n div 2)" using ih by simp
    also have "\<dots> \<le> n" by simp
    finally show ?thesis .
  qed
qed

lemma toDouble_nat_exact: "m \<le> 2 ^ 53 \<Longrightarrow> toDouble_nat m = m"
proof (cases "m < 2 ^ 53")
  case True
  then have "bit_length m - 53 = 0" using bit_length_le [of m 53] by simp
  then show ?thesis by (simp add: toDouble_nat_def)
next
  case False
  assume "m \<le> 2 ^ 53"
  with False have m: "m = 2 ^ 53" by simp
  have "bit_length m = 54" unfolding m using bit_length_eq [of 53 "2 ^ 53"] by simp
  then show ?thesis unfolding m by (simp add: toDouble_nat_def)
qed

lemma toDouble_nat_pos: "0 < m \<Longrightarrow> 0 < toDouble_nat m"
proof -
  assume m: "0 < m"
  define u :: nat where "u = 2 ^ (bit_length m - 53)"
  have "u \<le> 2 ^ (bit_length m - 1)"
    unfolding u_def by (rule power_increasing) simp_all
  also have "\<dots> \<le> m" using m by (rule bit_length_lower)
  finally have "u \<le> m" .
  moreover have upos: "0 < u" by (simp add: u_def)
  ultimately have "0 < m div u" by (simp add: div_greater_zero_iff)
  with upos have "0 < m div u * u" by simp
  moreover have "m div u * u \<le> (m div u + 1) * u" by simp
  ultimately show ?thesis
    by (simp add: toDouble_nat_def Let_def u_def [symmetric])
qed

lemma toDouble_nat_zero: "toDouble_nat 0 = 0"
  by (simp add: toDouble_nat_exact)

lemma toDouble_pos_iff: "0 < toDouble n \<longleftrightarrow> 0 < n"
proof (cases "0 < n")
  case True
  then have "0 < toDouble_nat (nat n)" by (intro toDouble_nat_pos) simp
  with True show ?thesis by (simp add: toDouble_def)
next
  case False
  then show ?thesis by (simp add: toDouble_def toDouble_nat_zero)
qed

lemma toDouble_exact: "\<bar>n\<bar> \<le> 2 ^ 53 \<Longrightarrow> toDouble n = n"
proof (cases "n < 0")
  case True
  assume "\<bar>n\<bar> \<le> 2 ^ 53"
  with True have "nat (- n) \<le> 2 ^ 53" by (simp add: nat_le_iff)
  then have "toDouble_nat (nat (- n)) = nat (- n)" by (rule toDouble_nat_exact)
  with True show ?thesis by (simp add: toDouble_def)
next
  case False
  assume "\<bar>n\<bar> \<le> 2 ^ 53"
  with False have "nat n \<le> 2 ^ 53" by (simp add: nat_le_iff)
  then have "toDouble_nat (nat n) = nat n" by (rule toDouble_nat_exact)
  with False show ?thesis by (simp add: toDouble_def)
qed

lemma js_add_pos_iff: "0 < js_add a b \<longleftrightarrow> 0 < a + b"
  by (simp add: js_add_def toDouble_pos_iff)

lemma js_add_exact: "\<bar>a + b\<bar> \<le> 2 ^ 53 \<Longrightarrow> js_add a b = a + b"
  by (simp add: js_add_def toDouble_exact)

lemma js_add_nonpos_iff: "js_add a b \<le> 0 \<longleftrightarrow> a + b \<le> 0"
  using js_add_pos_iff [of a b] by auto

lemma js_add_above_safe: "js_add 9007199254740992 1 = 9007199254740992"
proof -
  have "bit_length 9007199254740993 = Suc 53"
    by (rule bit_length_eq) simp_all
  then show ?thesis
    by (simp add: js_add_def toDouble_def toDouble_nat_def)
qed

section \<open>Properties of the quantity update\<close>

lemma updateQuantity_frame:
  "item_id (updateQuantity ident delta item) = item_id item"
  "name (updateQuantity ident delta item) = name item"
  "unit (updateQuantity ident delta item) = unit item"
  "category (updateQuantity ident delta item) = category item"
  "addedDate (updateQuantity ident delta item) = addedDate item"
  "isDeleted (updateQuantity ident delta item) = isDeleted item"
  by (simp_all add: updateQuantity_def Let_def)

lemma updateQuantity_other:
  "item_id item \<noteq> ident \<Longrightarrow> updateQuantity ident delta item = item"
  by (simp add: updateQuantity_def)

lemma updateQuantity_applied:
  "item_id item = ident \<Longrightarrow> 0 < quantity item + delta \<Longrightarrow>
     updateQuantity ident delta item = item\<lparr>quantity := js_add (quantity item) delta\<rparr>"
  by (simp add: updateQuantity_def Let_def js_add_pos_iff)

lemma updateQuantity_rejected:
  "quantity item + delta \<le> 0 \<Longrightarrow> updateQuantity ident delta item = item"
  by (simp add: updateQuantity_def Let_def js_add_pos_iff)

lemma updateQuantity_changed_positive:
  "updateQuantity ident delta item \<noteq> item \<Longrightarrow> 0 < quantity (updateQuantity ident delta item)"
  by (simp add: updateQuantity_def Let_def split: if_splits)

lemma updateQuantity_nth:
  "k < length prev \<Longrightarrow>
     handleUpdateQuantity ident delta prev ! k = updateQuantity ident delta (prev ! k)"
  by (simp add: handleUpdateQuantity_def)

lemma map_unchanged: "(\<And>x. x \<in> set xs \<Longrightarrow> f x = x) \<Longrightarrow> map f xs = xs"
  by (induction xs) simp_all

lemma unique_id_unchanged:
  assumes "distinct (map item_id prev)" "item \<in> set prev"
    and "updateQuantity (item_id item) delta item = item"
  shows "handleUpdateQuantity (item_id item) delta prev = prev"
  unfolding handleUpdateQuantity_def
proof (rule map_unchanged)
  fix x assume x: "x \<in> set prev"
  show "updateQuantity (item_id item) delta x = x"
  proof (cases "item_id x = item_id item")
    case True
    with assms(1,2) x have "x = item"
      by (meson distinct_map inj_on_def)
    with assms(3) show ?thesis by simp
  next
    case False
    then show ?thesis by (simp add: updateQuantity_other)
  qed
qed

text \<open>
  Claim C1, as the code has it. The claim reads: for every integer delta, if
  \<open>quantity + delta > 0\<close> the item's quantity becomes \<open>quantity + delta\<close>. The code adds
  doubles: an item of quantity \<open>2 ^ 53 = 9007199254740992\<close> given the delta 1 keeps the
  quantity 9007199254740992, which is not \<open>quantity + delta\<close>.
\<close>

theorem adjustQuantity_rounding_counterexample:
  "0 < quantity
         \<lparr>name = js ''rice'', quantity = 9007199254740992, unit = js ''g'', category = OTHER,
          isDeleted = False, item_id = js ''1'', addedDate = 0\<rparr> + 1 \<and>
   quantity (handleUpdateQuantity (js ''1'') 1
       [\<lparr>name = js ''rice'', quantity = 9007199254740992, unit = js ''g'', category = OTHER,
         isDeleted = False, item_id = js ''1'', addedDate = 0\<rparr>] ! 0)
     = 9007199254740992 \<and>
   quantity (handleUpdateQuantity (js ''1'') 1
       [\<lparr>name = js ''rice'', quantity = 9007199254740992, unit = js ''g'', category = OTHER,
         isDeleted = False, item_id = js ''1'', addedDate = 0\<rparr>] ! 0)
     \<noteq> quantity
         \<lparr>name = js ''rice'', quantity = 9007199254740992, unit = js ''g'', category = OTHER,
          isDeleted = False, item_id = js ''1'', addedDate = 0\<rparr> + 1"
  by (simp add: handleUpdateQuantity_def updateQuantity_def js_add_above_safe)

text \<open>
  Claim C1, amended. For every collection, every item id present in it and every integer
  delta, \<^verbatim>\<open>adjustQuantity(id, delta)\<close> never produces a stored quantity \<open>\<le> 0\<close>. Position by
  position: when \<open>quantity + delta > 0\<close> the item with that id gets the quantity that
  JavaScript's sum of the two gives, which is positive, and which is \<open>quantity + delta\<close>
  itself whenever that is at most \<open>2 ^ 53\<close>; when \<open>quantity + delta \<le> 0\<close> the item stays
  as it is. An item the update changed has a positive quantity, so a collection whose
  quantities are all at least 1 stays so. In a collection whose ids are unique (the data
  model's invariant), a rejected update returns the whole collection as it was.
\<close>

theorem adjustQuantity_floor:
  "length (handleUpdateQuantity ident delta prev) = length prev \<and>
   (\<forall>k<length prev. item_id (prev ! k) = ident \<longrightarrow>
      (0 < quantity (prev ! k) + delta \<longrightarrow>
         handleUpdateQuantity ident delta prev ! k
           = (prev ! k)\<lparr>quantity := js_add (quantity (prev ! k)) delta\<rparr> \<and>
         0 < js_add (quantity (prev ! k)) delta) \<and>
      (0 < quantity (prev ! k) + delta \<and> quantity (prev ! k) + delta \<le> 2 ^ 53 \<longrightarrow>
         handleUpdateQuantity ident delta prev ! k
           = (prev ! k)\<lparr>quantity := quantity (prev ! k) + delta\<rparr>) \<and>
      (quantity (prev ! k) + delta \<le> 0 \<longrightarrow>
         handleUpdateQuantity ident delta prev ! k = prev ! k)) \<and>
   (\<forall>k<length prev. handleUpdateQuantity ident delta prev ! k \<noteq> prev ! k \<longrightarrow>
      0 < quantity (handleUpdateQuantity ident delta prev ! k)) \<and>
   ((\<forall>item\<in>set prev. 1 \<le> quantity item) \<longrightarrow>
      (\<forall>item\<in>set (handleUpdateQuantity ident delta prev). 1 \<le> quantity item)) \<and>
   (distinct (map item_id prev) \<longrightarrow>
      (\<forall>item\<in>set prev. item_id item = ident \<and> quantity item + delta \<le> 0 \<longrightarrow>
         handleUpdateQuantity ident delta prev = prev))"
proof (intro conjI allI impI ballI)
  show "length (handleUpdateQuantity ident delta prev) = length prev"
    by (simp add: handleUpdateQuantity_def)
next
  fix k assume "k < length prev" "item_id (prev ! k) = ident" "0 < quantity (prev ! k) + delta"
  then show "handleUpdateQuantity ident delta prev ! k
               = (prev ! k)\<lparr>quantity := js_add (quantity (prev ! k)) delta\<rparr>"
    by (simp add: updateQuantity_nth updateQuantity_applied)
next
  fix k assume "0 < quantity (prev ! k) + delta"
  then show "0 < js_add (quantity (prev ! k)) delta"
    by (simp add: js_add_pos_iff)
next
  fix k assume k: "k < length prev" "item_id (prev ! k) = ident"
    and q: "0 < quantity (prev ! k) + delta \<and> quantity (prev ! k) + delta \<le> 2 ^ 53"
  then have "\<bar>quantity (prev ! k) + delta\<bar> \<le> 2 ^ 53"
    by simp
  then have "js_add (quantity (prev ! k)) delta = quantity (prev ! k) + delta"
    by (rule js_add_exact)
  with k q show "handleUpdateQuantity ident delta prev ! k
               = (prev ! k)\<lparr>quantity := quantity (prev ! k) + delta\<rparr>"
    by (simp add: updateQuantity_nth updateQuantity_applied)
next
  fix k assume "k < length prev" "quantity (prev ! k) + delta \<le> 0"
  then show "handleUpdateQuantity ident delta prev ! k = prev ! k"
    by (simp add: updateQuantity_nth updateQuantity_rejected)
next
  fix k assume "k < length prev" "handleUpdateQuantity ident delta prev ! k \<noteq> prev ! k"
  then show "0 < quantity (handleUpdateQuantity ident delta prev ! k)"
    by (simp add: updateQuantity_nth updateQuantity_changed_positive)
next
  fix item
  assume all: "\<forall>item\<in>set prev. 1 \<le> quantity item"
    and "item \<in> set (handleUpdateQuantity ident delta prev)"
  then obtain x where x: "x \<in> set prev" and item: "item = updateQuantity ident delta x"
    by (auto simp: handleUpdateQuantity_def)
  from all x have "1 \<le> quantity x" by blast
  then show "1 \<le> quantity item"
    unfolding item using updateQuantity_changed_positive [of ident delta x]
    by (cases "updateQuantity ident delta x = x") auto
next
  fix item
  assume "distinct (map item_id prev)" "item \<in> set prev"
    and "item_id item = ident \<and> quantity item + delta \<le> 0"
  then show "handleUpdateQuantity ident delta prev = prev"
    using unique_id_unchanged [of prev item delta] by (auto simp: updateQuantity_rejected)
qed

theorem adjustQuantity_floor_witness:
  "distinct (map item_id (demoData 0 0 0 0)) \<and>
   demoData 0 0 0 0 ! 0 \<in> set (demoData 0 0 0 0) \<and>
   item_id (demoData 0 0 0 0 ! 0) = js ''1'' \<and>
   quantity (demoData 0 0 0 0 ! 0) + (- 1) \<le> 0 \<and>
   handleUpdateQuantity (js ''1'') (- 1) (demoData 0 0 0 0) = demoData 0 0 0 0 \<and>
   0 < quantity (demoData 0 0 0 0 ! 0) + 1 \<and>
   quantity (demoData 0 0 0 0 ! 0) + 1 \<le> 2 ^ 53 \<and>
   quantity (handleUpdateQuantity (js ''1'') 1 (demoData 0 0 0 0) ! 0) = 2"
proof -
  let ?xs = "demoData 0 0 0 0"
  have d: "distinct (map item_id ?xs)"
    by (simp add: demoData_def js_def)
  have m: "?xs ! 0 \<in> set ?xs" and k: "0 < length ?xs"
    by (simp_all add: demoData_def)
  have i: "item_id (?xs ! 0) = js ''1''"
    and lo: "quantity (?xs ! 0) + (- 1) \<le> 0"
    and hi: "0 < quantity (?xs ! 0) + 1" and safe: "quantity (?xs ! 0) + 1 \<le> 2 ^ 53"
    by (simp_all add: demoData_def)
  from adjustQuantity_floor [of "js ''1''" "- 1" ?xs] d m i lo
  have rejected: "handleUpdateQuantity (js ''1'') (- 1) ?xs = ?xs"
    by blast
  from adjustQuantity_floor [of "js ''1''" 1 ?xs] k i hi safe
  have "handleUpdateQuantity (js ''1'') 1 ?xs ! 0 = (?xs ! 0)\<lparr>quantity := quantity (?xs ! 0) + 1\<rparr>"
    by blast
  then have applied: "quantity (handleUpdateQuantity (js ''1'') 1 ?xs ! 0) = 2"
    by (simp add: demoData_def)
  from d m i lo rejected hi safe applied show ?thesis
    by simp
qed

text \<open>
  Claim C10. For every collection, every id and every delta, \<^verbatim>\<open>adjustQuantity\<close> changes
  nothing but the quantity of the item with that id: the collection keeps its length, at
  every position the fields id, name, unit, category, addedDate and isDeleted are what
  they were, and an item with another id is unchanged altogether.
\<close>

theorem adjustQuantity_frame:
  "length (handleUpdateQuantity ident delta prev) = length prev \<and>
   (\<forall>k<length prev.
      item_id (handleUpdateQuantity ident delta prev ! k) = item_id (prev ! k) \<and>
      name (handleUpdateQuantity ident delta prev ! k) = name (prev ! k) \<and>
      unit (handleUpdateQuantity ident delta prev ! k) = unit (prev ! k) \<and>
      category (handleUpdateQuantity ident delta prev ! k) = category (prev ! k) \<and>
      addedDate (handleUpdateQuantity ident delta prev ! k) = addedDate (prev ! k) \<and>
      isDeleted (handleUpdateQuantity ident delta prev ! k) = isDeleted (prev ! k) \<and>
      (item_id (prev ! k) \<noteq> ident \<longrightarrow>
         handleUpdateQuantity ident delta prev ! k = prev ! k))"
  by (simp add: updateQuantity_nth updateQuantity_frame updateQuantity_other)
     (simp add: handleUpdateQuantity_def)

theorem adjustQuantity_frame_witness:
  "3 < length (demoData 0 0 0 0) \<and>
   item_id (demoData 0 0 0 0 ! 3) \<noteq> js ''1'' \<and>
   handleUpdateQuantity (js ''1'') 5 (demoData 0 0 0 0) ! 3 = demoData 0 0 0 0 ! 3 \<and>
   name (handleUpdateQuantity (js ''1'') 5 (demoData 0 0 0 0) ! 0) = [20840, 33026, 29275, 22902] \<and>
   isDeleted (handleUpdateQuantity (js ''1'') 5 (demoData 0 0 0 0) ! 0) = False"
proof -
  let ?xs = "demoData 0 0 0 0"
  have k3: "3 < length ?xs" and k0: "0 < length ?xs"
    by (simp_all add: demoData_def)
  have other: "item_id (?xs ! 3) \<noteq> js ''1''"
    by (simp add: demoData_def js_def)
  from adjustQuantity_frame [of "js ''1''" 5 ?xs] k3 other
  have same: "handleUpdateQuantity (js ''1'') 5 ?xs ! 3 = ?xs ! 3"
    by blast
  from adjustQuantity_frame [of "js ''1''" 5 ?xs] k0
  have "name (handleUpdateQuantity (js ''1'') 5 ?xs ! 0) = name (?xs ! 0)"
    and "isDeleted (handleUpdateQuantity (js ''1'') 5 ?xs ! 0) = isDeleted (?xs ! 0)"
    by blast+
  then have fields: "name (handleUpdateQuantity (js ''1'') 5 ?xs ! 0) = [20840, 33026, 29275, 22902]"
    "isDeleted (handleUpdateQuantity (js ''1'') 5 ?xs ! 0) = False"
    by (simp_all add: demoData_def)
  from k3 other same fields show ?thesis
    by simp
qed

text \<open>
  Claim C3, as the code has it. The claim reads: the update is applied only if an active
  item with that id exists, and a collection whose item with that id is soft-deleted is
  left unchanged. \<^verbatim>\<open>handleUpdateQuantity\<close> never reads \<^verbatim>\<open>isDeleted\<close>: on the demo data with
  item 4 moved to the trash, a delta of 1 takes the trashed item's quantity from 2 to 3.
\<close>

theorem adjustQuantity_deleted_counterexample:
  "item_id (moveToTrash (js ''4'') (demoData 0 0 0 0) ! 3) = js ''4'' \<and>
   isDeleted (moveToTrash (js ''4'') (demoData 0 0 0 0) ! 3) = True \<and>
   quantity (moveToTrash (js ''4'') (demoData 0 0 0 0) ! 3) = 2 \<and>
   quantity (handleUpdateQuantity (js ''4'') 1 (moveToTrash (js ''4'') (demoData 0 0 0 0)) ! 3) = 3 \<and>
   handleUpdateQuantity (js ''4'') 1 (moveToTrash (js ''4'') (demoData 0 0 0 0))
     \<noteq> moveToTrash (js ''4'') (demoData 0 0 0 0)"
  by (simp add: demoData_def moveToTrash_def handleUpdateQuantity_def updateQuantity_def
        js_def js_add_exact)

text \<open>
  Claim C3, amended. \<^verbatim>\<open>adjustQuantity(id, delta)\<close> applies the update to the item with
  that id whenever \<open>quantity + delta > 0\<close>, whether the item is active or soft-deleted:
  its quantity becomes JavaScript's sum of the two, which is positive and is
  \<open>quantity + delta\<close> itself whenever that is at most \<open>2 ^ 53\<close>, and its \<^verbatim>\<open>isDeleted\<close> flag
  stays as it was. A collection with no item of that id is unchanged. The update commutes
  with moving any item to the trash and with restoring it, so the flag has no part in it.
\<close>

theorem adjustQuantity_any_flag:
  "(\<forall>k<length prev. item_id (prev ! k) = ident \<and> 0 < quantity (prev ! k) + delta \<longrightarrow>
      handleUpdateQuantity ident delta prev ! k
        = (prev ! k)\<lparr>quantity := js_add (quantity (prev ! k)) delta\<rparr> \<and>
      0 < quantity (handleUpdateQuantity ident delta prev ! k) \<and>
      (quantity (prev ! k) + delta \<le> 2 ^ 53 \<longrightarrow>
         quantity (handleUpdateQuantity ident delta prev ! k) = quantity (prev ! k) + delta) \<and>
      isDeleted (handleUpdateQuantity ident delta prev ! k) = isDeleted (prev ! k)) \<and>
   (ident \<notin> item_id ` set prev \<longrightarrow> handleUpdateQuantity ident delta prev = prev) \<and>
   handleUpdateQuantity ident delta (moveToTrash ident' prev)
     = moveToTrash ident' (handleUpdateQuantity ident delta prev) \<and>
   handleUpdateQuantity ident delta (restoreFromTrash ident' prev)
     = restoreFromTrash ident' (handleUpdateQuantity ident delta prev)"
proof (intro conjI allI impI)
  fix k assume k: "k < length prev"
    and q: "item_id (prev ! k) = ident \<and> 0 < quantity (prev ! k) + delta"
  then show upd: "handleUpdateQuantity ident delta prev ! k
               = (prev ! k)\<lparr>quantity := js_add (quantity (prev ! k)) delta\<rparr>"
    by (simp add: updateQuantity_nth updateQuantity_applied)
  from q show "0 < quantity (handleUpdateQuantity ident delta prev ! k)"
    unfolding upd by (simp add: js_add_pos_iff)
  {
    assume "quantity (prev ! k) + delta \<le> 2 ^ 53"
    with q have "\<bar>quantity (prev ! k) + delta\<bar> \<le> 2 ^ 53"
      by simp
    then have "js_add (quantity (prev ! k)) delta = quantity (prev ! k) + delta"
      by (rule js_add_exact)
    then show "quantity (handleUpdateQuantity ident delta prev ! k) = quantity (prev ! k) + delta"
      unfolding upd by simp
  }
  from k show "isDeleted (handleUpdateQuantity ident delta prev ! k) = isDeleted (prev ! k)"
    by (simp add: updateQuantity_nth updateQuantity_frame)
next
  assume "ident \<notin> item_id ` set prev"
  then have "\<And>x. x \<in> set prev \<Longrightarrow> updateQuantity ident delta x = x"
    by (intro updateQuantity_other) auto
  then show "handleUpdateQuantity ident delta prev = prev"
    unfolding handleUpdateQuantity_def by (rule map_unchanged)
next
  show "handleUpdateQuantity ident delta (moveToTrash ident' prev)
          = moveToTrash ident' (handleUpdateQuantity ident delta prev)"
    by (simp add: handleUpdateQuantity_def moveToTrash_def updateQuantity_def Let_def)
  show "handleUpdateQuantity ident delta (restoreFromTrash ident' prev)
          = restoreFromTrash ident' (handleUpdateQuantity ident delta prev)"
    by (simp add: handleUpdateQuantity_def restoreFromTrash_def updateQuantity_def Let_def)
qed

theorem adjustQuantity_any_flag_witness:
  "3 < length (moveToTrash (js ''4'') (demoData 0 0 0 0)) \<and>
   item_id (moveToTrash (js ''4'') (demoData 0 0 0 0) ! 3) = js ''4'' \<and>
   0 < quantity (moveToTrash (js ''4'') (demoData 0 0 0 0) ! 3) + 1 \<and>
   quantity (moveToTrash (js ''4'') (demoData 0 0 0 0) ! 3) + 1 \<le> 2 ^ 53 \<and>
   isDeleted (handleUpdateQuantity (js ''4'') 1 (moveToTrash (js ''4'') (demoData 0 0 0 0)) ! 3) \<and>
   quantity (handleUpdateQuantity (js ''4'') 1 (moveToTrash (js ''4'') (demoData 0 0 0 0)) ! 3) = 3 \<and>
   js ''9'' \<notin> item_id ` set (demoData 0 0 0 0) \<and>
   handleUpdateQuantity (js ''9'') 1 (demoData 0 0 0 0) = demoData 0 0 0 0"
proof -
  let ?xs = "moveToTrash (js ''4'') (demoData 0 0 0 0)"
  have k: "3 < length ?xs" and i: "item_id (?xs ! 3) = js ''4''"
    and q: "0 < quantity (?xs ! 3) + 1" and safe: "quantity (?xs ! 3) + 1 \<le> 2 ^ 53"
    and t: "isDeleted (?xs ! 3)"
    by (simp_all add: demoData_def moveToTrash_def)
  from adjustQuantity_any_flag [of ?xs "js ''4''" 1] k i q safe
  have "quantity (handleUpdateQuantity (js ''4'') 1 ?xs ! 3) = quantity (?xs ! 3) + 1"
    and "isDeleted (handleUpdateQuantity (js ''4'') 1 ?xs ! 3) = isDeleted (?xs ! 3)"
    by blast+
  with t have upd: "quantity (handleUpdateQuantity (js ''4'') 1 ?xs ! 3) = 3"
    and del: "isDeleted (handleUpdateQuantity (js ''4'') 1 ?xs ! 3)"
    by (simp_all add: demoData_def moveToTrash_def)
  have miss: "js ''9'' \<notin> item_id ` set (demoData 0 0 0 0)"
    by (simp add: demoData_def js_def)
  from adjustQuantity_any_flag [of "demoData 0 0 0 0" "js ''9''" 1] miss
  have same: "handleUpdateQuantity (js ''9'') 1 (demoData 0 0 0 0) = demoData 0 0 0 0"
    by blast
  from k i q safe upd del miss same show ?thesis
    by simp
qed

section \<open>Properties of soft-delete and restore\<close>

lemma restore_after_trash:
  "restoreFromTrash ident (moveToTrash ident prev) = restoreFromTrash ident prev"
  by (simp add: restoreFromTrash_def moveToTrash_def)

text \<open>
  Claim C9. For every collection and every id, \<^verbatim>\<open>softDelete(id)\<close> followed by
  \<^verbatim>\<open>restore(id)\<close> gives a collection of the same length where the item with that id
  has \<^verbatim>\<open>isDeleted = false\<close> and is otherwise as before, and every other item is as
  before; when the items with that id were active to begin with, the collection is the
  one started from. \<^verbatim>\<open>softDelete\<close>, \<^verbatim>\<open>restore\<close> and their composition are idempotent.
\<close>

theorem softDelete_restore_roundtrip:
  "restoreFromTrash ident (moveToTrash ident prev) = restoreFromTrash ident prev \<and>
   length (restoreFromTrash ident (moveToTrash ident prev)) = length prev \<and>
   (\<forall>k<length prev.
      (item_id (prev ! k) = ident \<longrightarrow>
         restoreFromTrash ident (moveToTrash ident prev) ! k = (prev ! k)\<lparr>isDeleted := False\<rparr>) \<and>
      (item_id (prev ! k) \<noteq> ident \<longrightarrow>
         restoreFromTrash ident (moveToTrash ident prev) ! k = prev ! k)) \<and>
   ((\<forall>item\<in>set prev. item_id item = ident \<longrightarrow> \<not> isDeleted item) \<longrightarrow>
      restoreFromTrash ident (moveToTrash ident prev) = prev) \<and>
   moveToTrash ident (moveToTrash ident prev) = moveToTrash ident prev \<and>
   restoreFromTrash ident (restoreFromTrash ident prev) = restoreFromTrash ident prev \<and>
   restoreFromTrash ident (moveToTrash ident (restoreFromTrash ident (moveToTrash ident prev)))
     = restoreFromTrash ident (moveToTrash ident prev)"
proof (intro conjI allI impI)
  show "restoreFromTrash ident (moveToTrash ident prev) = restoreFromTrash ident prev"
    by (rule restore_after_trash)
  show "length (restoreFromTrash ident (moveToTrash ident prev)) = length prev"
    by (simp add: restoreFromTrash_def moveToTrash_def)
  show "moveToTrash ident (moveToTrash ident prev) = moveToTrash ident prev"
    by (simp add: moveToTrash_def)
  show idem: "restoreFromTrash ident (restoreFromTrash ident prev) = restoreFromTrash ident prev"
    by (simp add: restoreFromTrash_def)
  show "restoreFromTrash ident (moveToTrash ident (restoreFromTrash ident (moveToTrash ident prev)))
     = restoreFromTrash ident (moveToTrash ident prev)"
    by (simp add: restore_after_trash idem)
next
  fix k assume "k < length prev" "item_id (prev ! k) = ident"
  then show "restoreFromTrash ident (moveToTrash ident prev) ! k = (prev ! k)\<lparr>isDeleted := False\<rparr>"
    by (simp add: restoreFromTrash_def moveToTrash_def)
next
  fix k assume "k < length prev" "item_id (prev ! k) \<noteq> ident"
  then show "restoreFromTrash ident (moveToTrash ident prev) ! k = prev ! k"
    by (simp add: restoreFromTrash_def moveToTrash_def)
next
  assume active: "\<forall>item\<in>set prev. item_id item = ident \<longrightarrow> \<not> isDeleted item"
  have "map (\<lambda>item. if item_id item = ident then item\<lparr>isDeleted := False\<rparr> else item) prev = prev"
    using active by (intro map_unchanged) auto
  then have "restoreFromTrash ident prev = prev"
    by (simp add: restoreFromTrash_def)
  then show "restoreFromTrash ident (moveToTrash ident prev) = prev"
    by (simp only: restore_after_trash)
qed

theorem softDelete_restore_roundtrip_witness:
  "3 < length (demoData 0 0 0 0) \<and>
   item_id (demoData 0 0 0 0 ! 3) = js ''4'' \<and>
   isDeleted (moveToTrash (js ''4'') (demoData 0 0 0 0) ! 3) \<and>
   restoreFromTrash (js ''4'') (moveToTrash (js ''4'') (demoData 0 0 0 0)) ! 3
     = (demoData 0 0 0 0 ! 3)\<lparr>isDeleted := False\<rparr> \<and>
   restoreFromTrash (js ''4'') (moveToTrash (js ''4'') (demoData 0 0 0 0)) = demoData 0 0 0 0"
proof -
  let ?xs = "demoData 0 0 0 0"
  have k: "3 < length ?xs" and i: "item_id (?xs ! 3) = js ''4''"
    by (simp_all add: demoData_def)
  have t: "isDeleted (moveToTrash (js ''4'') ?xs ! 3)"
    by (simp add: demoData_def moveToTrash_def)
  have active: "\<forall>item\<in>set ?xs. item_id item = js ''4'' \<longrightarrow> \<not> isDeleted item"
    by (simp add: demoData_def)
  from softDelete_restore_roundtrip [of "js ''4''" ?xs] k i
  have one: "restoreFromTrash (js ''4'') (moveToTrash (js ''4'') ?xs) ! 3
               = (?xs ! 3)\<lparr>isDeleted := False\<rparr>"
    by blast
  from softDelete_restore_roundtrip [of "js ''4''" ?xs] active
  have whole: "restoreFromTrash (js ''4'') (moveToTrash (js ''4'') ?xs) = ?xs"
    by blast
  from k i t one whole show ?thesis
    by simp
qed

section \<open>Properties of the freshness classifier\<close>

lemma tiers_distinct: "FRESH \<noteq> MEDIUM" "MEDIUM \<noteq> OLD" "FRESH \<noteq> OLD"
  by (simp_all add: FRESH_def MEDIUM_def OLD_def js_def)

text \<open>
  Claim C8. The classifier maps every day count \<open>d\<close> with \<open>0 \<le> d \<le> 3\<close> to FRESH, every
  \<open>d\<close> with \<open>4 \<le> d \<le> 7\<close> to MEDIUM and every \<open>d \<ge> 8\<close> to OLD; at the boundaries,
  \<open>classify 3 = FRESH\<close>, \<open>classify 4 = MEDIUM\<close>, \<open>classify 7 = MEDIUM\<close> and
  \<open>classify 8 = OLD\<close>. Every day count gets one of the three tiers, and the three tiers
  are different values.
\<close>

theorem classify_tiers:
  "(0 \<le> d \<and> d \<le> 3 \<longrightarrow> getFreshnessColor d = FRESH) \<and>
   (4 \<le> d \<and> d \<le> 7 \<longrightarrow> getFreshnessColor d = MEDIUM) \<and>
   (8 \<le> d \<longrightarrow> getFreshnessColor d = OLD) \<and>
   getFreshnessColor 3 = FRESH \<and> getFreshnessColor 4 = MEDIUM \<and>
   getFreshnessColor 7 = MEDIUM \<and> getFreshnessColor 8 = OLD \<and>
   (getFreshnessColor d = FRESH \<or> getFreshnessColor d = MEDIUM \<or> getFreshnessColor d = OLD) \<and>
   FRESH \<noteq> MEDIUM \<and> MEDIUM \<noteq> OLD \<and> FRESH \<noteq> OLD"
  by (simp add: getFreshnessColor_def tiers_distinct)

theorem classify_tiers_witness:
  "(0::int) \<le> 2 \<and> (2::int) \<le> 3 \<and> getFreshnessColor 2 = FRESH \<and>
   (4::int) \<le> 5 \<and> (5::int) \<le> 7 \<and> getFreshnessColor 5 = MEDIUM \<and>
   (8::int) \<le> 30 \<and> getFreshnessColor 30 = OLD"
  using classify_tiers [of 2] classify_tiers [of 5] classify_tiers [of 30] by simp

section \<open>Properties of add\<close>

text \<open>
  Claim C4, as the code has it. The claim reads: after \<^verbatim>\<open>add\<close> the new item has a fresh
  id, distinct from all pre-existing ids. The id is whatever \<^verbatim>\<open>crypto.randomUUID()\<close>
  returns, and \<^verbatim>\<open>handleAddItem\<close> does not look at the ids of \<^verbatim>\<open>prev\<close>: when the generator
  returns a value it returned for an earlier \<^verbatim>\<open>add\<close>, the collection has two items of
  that id.
\<close>

theorem add_colliding_id_counterexample:
  "item_id (hd
     (handleAddItem (js ''123e4567-e89b-42d3-a456-426614174000'') 6
        \<lparr>name = js ''egg'', quantity = 6, unit = js ''pc'', category = OTHER, isDeleted = False\<rparr>
        (handleAddItem (js ''123e4567-e89b-42d3-a456-426614174000'') 5
           \<lparr>name = js ''tea'', quantity = 1, unit = js ''box'', category = OTHER, isDeleted = False\<rparr>
           [])))
     \<in> item_id ` set
         (handleAddItem (js ''123e4567-e89b-42d3-a456-426614174000'') 5
            \<lparr>name = js ''tea'', quantity = 1, unit = js ''box'', category = OTHER, isDeleted = False\<rparr>
            []) \<and>
   \<not> distinct (map item_id
     (handleAddItem (js ''123e4567-e89b-42d3-a456-426614174000'') 6
        \<lparr>name = js ''egg'', quantity = 6, unit = js ''pc'', category = OTHER, isDeleted = False\<rparr>
        (handleAddItem (js ''123e4567-e89b-42d3-a456-426614174000'') 5
           \<lparr>name = js ''tea'', quantity = 1, unit = js ''box'', category = OTHER, isDeleted = False\<rparr>
           [])))"
  by (simp add: handleAddItem_def newInventoryItem_def)

text \<open>
  Claim C4, amended. For every prior collection and every draft, after \<^verbatim>\<open>add\<close> exactly
  one new item exists: the collection is the new item followed by the prior collection,
  item for item as it was, so it is one longer. The new item has \<^verbatim>\<open>isDeleted = false\<close>
  (whatever the draft carried), the draft's quantity, name, unit and category,
  \<^verbatim>\<open>addedDate\<close> equal to the creation instant and the id that \<^verbatim>\<open>crypto.randomUUID()\<close>
  returned. The store does not compare that id with the prior ones: it differs from every
  prior id exactly when the generator returned none of them, and the ids of the new
  collection are unique exactly when, besides, those of the prior collection were.
\<close>

theorem add_creates_one_item:
  "handleAddItem uuid now draft prev = newInventoryItem uuid now draft # prev \<and>
   length (handleAddItem uuid now draft prev) = length prev + 1 \<and>
   tl (handleAddItem uuid now draft prev) = prev \<and>
   isDeleted (hd (handleAddItem uuid now draft prev)) = False \<and>
   quantity (hd (handleAddItem uuid now draft prev)) = quantity draft \<and>
   name (hd (handleAddItem uuid now draft prev)) = name draft \<and>
   unit (hd (handleAddItem uuid now draft prev)) = unit draft \<and>
   category (hd (handleAddItem uuid now draft prev)) = category draft \<and>
   addedDate (hd (handleAddItem uuid now draft prev)) = now \<and>
   item_id (hd (handleAddItem uuid now draft prev)) = uuid \<and>
   ((\<forall>old\<in>set prev. item_id (hd (handleAddItem uuid now draft prev)) \<noteq> item_id old)
      \<longleftrightarrow> uuid \<notin> item_id ` set prev) \<and>
   (distinct (map item_id (handleAddItem uuid now draft prev))
      \<longleftrightarrow> uuid \<notin> item_id ` set prev \<and> distinct (map item_id prev))"
  by (auto simp: handleAddItem_def newInventoryItem_def)

theorem add_creates_one_item_witness:
  "js ''u-1'' \<notin> item_id ` set (demoData 0 0 0 0) \<and>
   distinct (map item_id (demoData 0 0 0 0)) \<and>
   distinct (map item_id
     (handleAddItem (js ''u-1'') 5
        \<lparr>name = js ''egg'', quantity = 6, unit = js ''pc'', category = OTHER, isDeleted = True\<rparr>
        (demoData 0 0 0 0))) \<and>
   isDeleted (hd
     (handleAddItem (js ''u-1'') 5
        \<lparr>name = js ''egg'', quantity = 6, unit = js ''pc'', category = OTHER, isDeleted = True\<rparr>
        (demoData 0 0 0 0))) = False \<and>
   \<not> distinct (map item_id
     (handleAddItem (js ''1'') 5
        \<lparr>name = js ''egg'', quantity = 6, unit = js ''pc'', category = OTHER, isDeleted = True\<rparr>
        (demoData 0 0 0 0)))"
proof -
  let ?d = "\<lparr>name = js ''egg'', quantity = 6, unit = js ''pc'', category = OTHER, isDeleted = True\<rparr>"
  let ?xs = "demoData 0 0 0 0"
  have fresh: "js ''u-1'' \<notin> item_id ` set ?xs" and d: "distinct (map item_id ?xs)"
    and taken: "js ''1'' \<in> item_id ` set ?xs"
    by (simp_all add: demoData_def js_def)
  from add_creates_one_item [of "js ''u-1''" 5 ?d ?xs] fresh d
  have "distinct (map item_id (handleAddItem (js ''u-1'') 5 ?d ?xs))"
    and "isDeleted (hd (handleAddItem (js ''u-1'') 5 ?d ?xs)) = False"
    by blast+
  moreover from add_creates_one_item [of "js ''1''" 5 ?d ?xs] taken
  have "\<not> distinct (map item_id (handleAddItem (js ''1'') 5 ?d ?xs))"
    by blast
  ultimately show ?thesis
    using fresh d by simp
qed

text \<open>
  Claim C5, as the code has it. The claim reads: for every draft, validated or not, the
  item created has quantity at least 1. \<^verbatim>\<open>handleAddItem\<close> spreads the draft into the item
  and checks nothing: a draft of quantity 0 gives an item of quantity 0.
\<close>

theorem add_zero_quantity_counterexample:
  "\<not> 1 \<le> quantity (hd (handleAddItem (js ''u-1'') 5
        \<lparr>name = js ''egg'', quantity = 0, unit = js ''pc'', category = OTHER, isDeleted = False\<rparr>
        (demoData 0 0 0 0)))"
  by (simp add: handleAddItem_def newInventoryItem_def)

text \<open>
  Claim C5, amended. After \<^verbatim>\<open>add\<close> the created item has the draft's quantity, whatever
  it is: at least 1 when the draft's is (the caller validates), and \<open>\<le> 0\<close> when the
  draft's is.
\<close>

theorem add_keeps_draft_quantity:
  "quantity (hd (handleAddItem uuid now draft prev)) = quantity draft \<and>
   (1 \<le> quantity draft \<longrightarrow> 1 \<le> quantity (hd (handleAddItem uuid now draft prev))) \<and>
   (quantity draft \<le> 0 \<longrightarrow> quantity (hd (handleAddItem uuid now draft prev)) \<le> 0)"
  by (simp add: handleAddItem_def newInventoryItem_def)

theorem add_keeps_draft_quantity_witness:
  "(1::int) \<le> quantity \<lparr>name = js ''egg'', quantity = 6, unit = js ''pc'', category = OTHER, isDeleted = False\<rparr> \<and>
   1 \<le> quantity (hd (handleAddItem (js ''u-1'') 5
        \<lparr>name = js ''egg'', quantity = 6, unit = js ''pc'', category = OTHER, isDeleted = False\<rparr> [])) \<and>
   quantity \<lparr>name = js ''egg'', quantity = 0, unit = js ''pc'', category = OTHER, isDeleted = False\<rparr> \<le> 0 \<and>
   quantity (hd (handleAddItem (js ''u-1'') 5
        \<lparr>name = js ''egg'', quantity = 0, unit = js ''pc'', category = OTHER, isDeleted = False\<rparr> [])) \<le> 0"
proof -
  let ?six = "\<lparr>name = js ''egg'', quantity = 6, unit = js ''pc'', category = OTHER, isDeleted = False\<rparr>"
  let ?zero = "\<lparr>name = js ''egg'', quantity = 0, unit = js ''pc'', category = OTHER, isDeleted = False\<rparr>"
  have six: "1 \<le> quantity ?six" and zero: "quantity ?zero \<le> 0"
    by simp_all
  from add_keeps_draft_quantity [of "js ''u-1''" 5 ?six "[]"] six
  have a: "1 \<le> quantity (hd (handleAddItem (js ''u-1'') 5 ?six []))"
    by blast
  from add_keeps_draft_quantity [of "js ''u-1''" 5 ?zero "[]"] zero
  have b: "quantity (hd (handleAddItem (js ''u-1'') 5 ?zero [])) \<le> 0"
    by blast
  from six a zero b show ?thesis
    by blast
qed

section \<open>Properties of initialize\<close>

text \<open>
  Claim C2, as the code has it. The claim reads: when the persisted data cannot be
  parsed, the store adopts the seed collection. The catch block logs and sets nothing, so
  the state stays the empty array the component mounted with. The parser of the example
  reads the text \<^verbatim>\<open>[]\<close> as the empty array and rejects every other text, \<^verbatim>\<open>{\<close> among
  them, as \<^verbatim>\<open>JSON.parse\<close> does on these two.
\<close>

theorem initialize_parse_failure_counterexample:
  "[js ''[]'' \<mapsto> ([]::InventoryItem list)] (js ''{'') = None \<and>
   initialize [js ''[]'' \<mapsto> []] 0 0 0 0 (Some (js ''{'')) = [] \<and>
   initialize [js ''[]'' \<mapsto> []] 0 0 0 0 (Some (js ''{'')) \<noteq> demoData 0 0 0 0"
  by (simp add: initialize_def loadEffect_def demoData_def js_def)

text \<open>
  Claim C2, amended. \<^verbatim>\<open>initialize\<close> adopts the persisted collection verbatim when the
  stored text is non-empty and parses; it adopts the seed collection (the four demo
  items, dated from the clock) when nothing is stored or the stored text is empty; and
  when the stored text does not parse it keeps the empty collection it started with.
\<close>

theorem initialize_cases:
  "(s \<noteq> [] \<and> JSON_parse s = Some v \<longrightarrow> initialize JSON_parse t1 t2 t3 t4 (Some s) = v) \<and>
   initialize JSON_parse t1 t2 t3 t4 None = demoData t1 t2 t3 t4 \<and>
   initialize JSON_parse t1 t2 t3 t4 (Some []) = demoData t1 t2 t3 t4 \<and>
   (s \<noteq> [] \<and> JSON_parse s = None \<longrightarrow> initialize JSON_parse t1 t2 t3 t4 (Some s) = [])"
  by (simp add: initialize_def loadEffect_def)

theorem initialize_cases_witness:
  "js ''[]'' \<noteq> [] \<and> [js ''[]'' \<mapsto> ([]::InventoryItem list)] (js ''[]'') = Some [] \<and>
   initialize [js ''[]'' \<mapsto> []] 0 0 0 0 (Some (js ''[]'')) = [] \<and>
   js ''{'' \<noteq> [] \<and> [js ''[]'' \<mapsto> ([]::InventoryItem list)] (js ''{'') = None \<and>
   initialize [js ''[]'' \<mapsto> []] 0 0 0 0 (Some (js ''{'')) = []"
proof -
  let ?parse = "[js ''[]'' \<mapsto> ([]::InventoryItem list)]"
  have ok: "js ''[]'' \<noteq> [] \<and> ?parse (js ''[]'') = Some []"
    and bad: "js ''{'' \<noteq> [] \<and> ?parse (js ''{'') = None"
    by (simp_all add: js_def)
  from initialize_cases [of "js ''[]''" ?parse "[]" 0 0 0 0] ok
  have a: "initialize ?parse 0 0 0 0 (Some (js ''[]'')) = []"
    by blast
  from initialize_cases [of "js ''{''" ?parse "[]" 0 0 0 0] bad
  have b: "initialize ?parse 0 0 0 0 (Some (js ''{'')) = []"
    by blast
  from ok a bad b show ?thesis
    by blast
qed

section \<open>Properties of the view projector\<close>

lemma sort_cmp_newestFirst:
  "sort_cmp newestFirst xs = sort_key (\<lambda>x. - addedDate x) xs"
proof -
  have "insert_cmp newestFirst x ys = insort_key (\<lambda>x. - addedDate x) x ys" for x ys
    by (induction ys) (simp_all add: newestFirst_def)
  then have "insert_cmp newestFirst = insort_key (\<lambda>x. - addedDate x)"
    by (intro ext)
  then show ?thesis
    by (simp add: sort_cmp_def sort_key_def)
qed


lemma keepItem_trash: "keepItem toLowerCase filterCategory searchTerm True = isDeleted"
  by (intro ext) (simp add: keepItem_def)



text \<open>
  Claim C6. In trash mode, for every collection, category filter and search term, the
  projection is the soft-deleted items and nothing else, newest first: it has exactly
  the items with \<^verbatim>\<open>isDeleted = true\<close>, each as often as the collection has it, and it is
  the same for every category filter, search term and lower-casing.
\<close>

theorem project_trash_mode:
  "filteredItems toLowerCase items filterCategory searchTerm True
     = sort_key (\<lambda>x. - addedDate x) (filter isDeleted items) \<and>
   mset (filteredItems toLowerCase items filterCategory searchTerm True)
     = mset (filter isDeleted items) \<and>
   set (filteredItems toLowerCase items filterCategory searchTerm True)
     = {item \<in> set items. isDeleted item} \<and>
   filteredItems toLowerCase items filterCategory searchTerm True
     = filteredItems toLowerCase' items filterCategory' searchTerm' True"
  by (simp add: filteredItems_def keepItem_trash sort_cmp_newestFirst)

theorem project_trash_mode_witness:
  "filteredItems id (moveToTrash (js ''4'') (demoData 0 0 0 0)) (Only FRUIT) (js ''zzz'') True
     = filteredItems id (moveToTrash (js ''4'') (demoData 0 0 0 0)) ALL_categories [] True \<and>
   map item_id
     (filteredItems id (moveToTrash (js ''4'') (demoData 0 0 0 0)) (Only FRUIT) (js ''zzz'') True)
     = [js ''4'']"
proof -
  let ?xs = "moveToTrash (js ''4'') (demoData 0 0 0 0)"
  from project_trash_mode [of id ?xs "Only FRUIT" "js ''zzz''" id ALL_categories "[]"]
  have same: "filteredItems id ?xs (Only FRUIT) (js ''zzz'') True
                = filteredItems id ?xs ALL_categories [] True"
    and "filteredItems id ?xs (Only FRUIT) (js ''zzz'') True
           = sort_key (\<lambda>x. - addedDate x) (filter isDeleted ?xs)"
    by blast+
  then have "map item_id (filteredItems id ?xs (Only FRUIT) (js ''zzz'') True) = [js ''4'']"
    by (simp add: demoData_def moveToTrash_def js_def)
  with same show ?thesis
    by simp
qed



end
